theory Spec2Isabelle
  imports Complex_Main "HOL-Library.Char_ord" "HOL-Library.List_Lexorder"
begin

section \<open>Policy-gated checkout: a shallow embedding of App.tsx\<close>

text \<open>
  The component \<^verbatim>\<open>App\<close> of \<^verbatim>\<open>src/src/App.tsx\<close> is a pure computation over its React
  state, the policy table and the wall clock, plus one effect (the auto-fallback) and two
  button handlers (lock and reset of the quote). Every \<^verbatim>\<open>const\<close> of the component is a
  function here, of exactly the values it reads.

  JavaScript numbers are modelled as exact rationals: IEEE-754 rounding of the products and
  sums is not modelled, and the one place where a division by zero can occur
  (\<^verbatim>\<open>slippageValid\<close>) has the outcome of the JavaScript comparison written out.
\<close>

subsection \<open>Data model\<close>

datatype switch = ON | OFF

datatype kyc = KycNone | KycPartner | KycIssuer

datatype screen_outcome = Pass | Review | Fail

text \<open>
  A row of \<^verbatim>\<open>POLICY_MATRIX\<close>. The fields that only the policy-matrix export reads
  (use case, chain, KYC level, flags, merchant codes, fallback, dates, approver, notes)
  are left out; the resolution of the snapshot reads none of them.
\<close>

record PolicyRow =
  version :: string
  country :: string
  instrument :: string
  allow :: switch
  max_txn_local :: rat
  row_daily_cap_local :: rat
  monthly_cap_local :: rat
  local_currency :: string
  row_time_window_local :: string
  row_required_disclosures :: "string list"

record PolicySnapshot =
  on_off :: switch
  max_per_txn_local :: rat
  daily_cap_local :: rat
  time_window_local :: string
  required_disclosures :: "string list"
  kyc_level :: kyc
  travel_rule_applied :: bool
  sanctions_screen :: screen_outcome

text \<open>A JavaScript \<^verbatim>\<open>Date\<close>, as the local-time getters and \<^verbatim>\<open>getTime\<close> show it.\<close>

record Date =
  getFullYear :: nat
  getMonth :: nat
  getDate :: nat
  getHours :: nat
  getMinutes :: nat
  getTime :: int

definition valid_date :: "Date \<Rightarrow> bool" where
  "valid_date d \<longleftrightarrow>
     getMonth d < 12 \<and> 1 \<le> getDate d \<and> getDate d \<le> 31 \<and> getHours d < 24 \<and> getMinutes d < 60"

text \<open>The state of the earlier component (\<^verbatim>\<open>src/unnamed/part_000\<close>): its nine \<^verbatim>\<open>useState\<close> cells.\<close>

record inputs =
  jurisdiction :: string
  merchantName :: string
  tochikaJPY :: rat
  usdcAmt :: rat
  cardJPY :: rat
  rateUSDCJPY :: rat
  holdSec :: int
  slippageBps :: int
  now :: Date

text \<open>The state of \<^verbatim>\<open>App\<close>: the same cells and the quote lock with the auto-fallback switch.\<close>

record state = inputs +
  quoteLocked :: bool
  quoteRate :: "rat option"
  quoteStart :: "int option"
  autoFallback :: bool

datatype message =
    Blocked_Policy_OFF
  | Blocked_Outside_time_window
  | Blocked_Exceeds_per_txn_cap
  | Blocked_Policy_rule
  | Blocked_Quote_hold_expired
  | Blocked_Slippage_bound_breached
  | Approved_rules_satisfied

text \<open>The messages of the earlier component, whose wording differs.\<close>

datatype message_v0 =
    V0_Blocked_Policy_OFF
  | V0_Blocked_Outside_time_window
  | V0_Blocked_Exceeds_per_txn_cap
  | V0_Blocked_Unknown
  | V0_Approved_rules_satisfied

datatype reason = PolicyDisabled | OutsideWindow | CapExceeded | QuoteExpired | SlippageBreached

datatype GateDecision = Approved | Blocked reason

record Payout =
  gross_jpy :: rat
  fees_jpy :: rat
  net_jpy :: int
  bank_last4 :: string

text \<open>
  \<^verbatim>\<open>receiptJSON\<close>, without the timestamps, the quote block of the USDC tender and the
  constant counterparty references.
\<close>

record Receipt =
  reconciliation_id :: string
  order_id :: string
  receipt_jurisdiction :: string
  policy_version :: string
  policy_snapshot :: PolicySnapshot
  tochika_amount_jpy :: rat
  tochika_route :: string
  usdc_value_jpy :: int
  card_amount_jpy :: rat
  payout :: Payout

text \<open>The columns of the one data row of \<^verbatim>\<open>reconCSV\<close> that carry the RID and the amounts.\<close>

record ReconRow =
  RID :: string
  Order_ID :: string
  Merchant_ID :: string
  Payout_Currency :: string
  Amount_Gross :: string
  Amount_Net :: string
  Asset_In_Type :: string

subsection \<open>The policy table\<close>

definition POLICY_MATRIX :: "PolicyRow list" where
  "POLICY_MATRIX =
    [\<lparr>version = ''JP-1.4'', country = ''JP'', instrument = ''Tochika'', allow = ON,
      max_txn_local = 15000, row_daily_cap_local = 30000, monthly_cap_local = 90000,
      local_currency = ''JPY'', row_time_window_local = ''09:00-20:00'',
      row_required_disclosures = [''JP-DISC-01'', ''JP-DISC-03'']\<rparr>,
     \<lparr>version = ''JP-1.4'', country = ''JP'', instrument = ''USDC'', allow = ON,
      max_txn_local = 5000, row_daily_cap_local = 15000, monthly_cap_local = 45000,
      local_currency = ''JPY'', row_time_window_local = ''09:00-20:00'',
      row_required_disclosures = [''JP-DISC-01'', ''JP-DISC-04'']\<rparr>,
     \<lparr>version = ''HK-0.9'', country = ''HK'', instrument = ''USDC'', allow = OFF,
      max_txn_local = 0, row_daily_cap_local = 0, monthly_cap_local = 0,
      local_currency = ''HKD'', row_time_window_local = ''10:00-18:00'',
      row_required_disclosures = [''HK-DISC-02'']\<rparr>,
     \<lparr>version = ''JP-1.4'', country = ''JP'', instrument = ''Points'', allow = ON,
      max_txn_local = 8000, row_daily_cap_local = 15000, monthly_cap_local = 45000,
      local_currency = ''JPY'', row_time_window_local = ''00:00-24:00'',
      row_required_disclosures = [''JP-DISC-02'']\<rparr>]"

subsection \<open>JavaScript built-ins\<close>

text \<open>\<^verbatim>\<open>Math.round\<close>: the nearest integer, a half rounded towards plus infinity.\<close>

definition Math_round :: "rat \<Rightarrow> int" where
  "Math_round x = \<lfloor>x + 1 / 2\<rfloor>"

definition digit :: "nat \<Rightarrow> char" where
  "digit n = char_of (48 + n)"

text \<open>\<^verbatim>\<open>String(n)\<close> of a non-negative integer: its decimal digits.\<close>

fun String_nat :: "nat \<Rightarrow> string" where
  "String_nat n = (if n < 10 then [digit n] else String_nat (n div 10) @ [digit (n mod 10)])"

declare String_nat.simps [simp del]

text \<open>\<^verbatim>\<open>String(i)\<close> and \<^verbatim>\<open>i.toString()\<close> of an integer (minus zero prints as zero).\<close>

definition String_int :: "int \<Rightarrow> string" where
  "String_int i = (if i < 0 then CHR ''-'' # String_nat (nat (- i)) else String_nat (nat i))"


text \<open>\<^verbatim>\<open>s.padStart(n, "0")\<close>.\<close>

definition padStart :: "nat \<Rightarrow> string \<Rightarrow> string" where
  "padStart n s = replicate (n - length s) (CHR ''0'') @ s"

text \<open>\<^verbatim>\<open>s.split(sep)\<close> for a one-character separator: never empty, \<^verbatim>\<open>"".split("-")\<close> is \<^verbatim>\<open>[""]\<close>.\<close>

fun split :: "char \<Rightarrow> string \<Rightarrow> string list" where
  "split sep [] = [[]]"
| "split sep (c # cs) =
     (if c = sep then [] # split sep cs
      else (case split sep cs of [] \<Rightarrow> [[c]] | w # ws \<Rightarrow> (c # w) # ws))"

text \<open>\<^verbatim>\<open>Array.from(new Set(xs))\<close>: the first occurrence of every element, in order.\<close>

definition Array_from_Set :: "'a list \<Rightarrow> 'a list" where
  "Array_from_Set xs = fold (\<lambda>x acc. if x \<in> set acc then acc else acc @ [x]) xs []"

subsection \<open>Helpers of the source\<close>

definition hhmm :: "Date \<Rightarrow> string" where
  "hhmm date =
     (let h = padStart 2 (String_nat (getHours date));
          m = padStart 2 (String_nat (getMinutes date))
      in h @ '':'' @ m)"

text \<open>
  The destructuring \<^verbatim>\<open>[start, end] = window.split("-")\<close> leaves \<^verbatim>\<open>end\<close> undefined when the
  window has no dash, and a comparison of a string with \<^verbatim>\<open>undefined\<close> is false.
\<close>

definition withinWindow :: "Date \<Rightarrow> string \<Rightarrow> bool" where
  "withinWindow nw window =
     (let nowHM = hhmm nw
      in case split (CHR ''-'') window of
           start # end # _ \<Rightarrow> nowHM \<ge> start \<and> nowHM \<le> end
         | _ \<Rightarrow> False)"

definition genRID :: "string \<Rightarrow> Date \<Rightarrow> nat \<Rightarrow> string" where
  "genRID cntry nw seq =
     (let y = getFullYear nw;
          m = padStart 2 (String_nat (getMonth nw + 1));
          d = padStart 2 (String_nat (getDate nw))
      in ''RID-'' @ cntry @ ''-'' @ String_nat y @ m @ d @ ''-'' @ padStart 6 (String_nat seq))"

text \<open>
  \<^verbatim>\<open>csvEscape\<close> of App.tsx tests \<^verbatim>\<open>/[\",\\n]/\<close>: the character class holds the
  double quote, the comma, the backslash and the letter n.
\<close>

definition csvClass :: "char \<Rightarrow> bool" where
  \<open>csvClass c \<longleftrightarrow> c = CHR 0x22 \<or> c = CHR '','' \<or> c = CHR 0x5C \<or> c = CHR ''n''\<close>

definition csvEscape :: "string \<Rightarrow> string" where
  \<open>csvEscape s =
     (if list_ex csvClass s
      then [CHR 0x22] @ concat (map (\<lambda>c. if c = CHR 0x22 then [CHR 0x22, CHR 0x22] else [c]) s)
             @ [CHR 0x22]
      else s)\<close>

subsection \<open>The component\<close>

definition totalJPY :: "'a inputs_scheme \<Rightarrow> rat" where
  "totalJPY st =
     of_int (Math_round ((tochikaJPY st + usdcAmt st * rateUSDCJPY st + cardJPY st) * 100)) / 100"

definition jpTochika :: "PolicyRow list \<Rightarrow> PolicyRow option" where
  "jpTochika rows = find (\<lambda>r. country r = ''JP'' \<and> instrument r = ''Tochika'') rows"

definition jpUsdc :: "PolicyRow list \<Rightarrow> PolicyRow option" where
  "jpUsdc rows = find (\<lambda>r. country r = ''JP'' \<and> instrument r = ''USDC'') rows"

text \<open>
  \<^verbatim>\<open>policyApplied\<close>, with the table as a parameter. \<^verbatim>\<open>r?.f ?? d\<close> is the field of the row
  found and \<^verbatim>\<open>d\<close> when \<^verbatim>\<open>find\<close> returned \<^verbatim>\<open>undefined\<close>.
\<close>

definition policyApplied :: "PolicyRow list \<Rightarrow> PolicySnapshot" where
  "policyApplied rows =
     \<lparr>on_off =
        (if (case jpTochika rows of None \<Rightarrow> False | Some r \<Rightarrow> allow r = ON) \<or>
            (case jpUsdc rows of None \<Rightarrow> False | Some r \<Rightarrow> allow r = ON)
         then ON else OFF),
      max_per_txn_local =
        max (case jpTochika rows of None \<Rightarrow> 0 | Some r \<Rightarrow> max_txn_local r)
            (case jpUsdc rows of None \<Rightarrow> 0 | Some r \<Rightarrow> max_txn_local r),
      daily_cap_local =
        max (case jpTochika rows of None \<Rightarrow> 0 | Some r \<Rightarrow> row_daily_cap_local r)
            (case jpUsdc rows of None \<Rightarrow> 0 | Some r \<Rightarrow> row_daily_cap_local r),
      time_window_local =
        (case jpTochika rows of None \<Rightarrow> ''09:00-20:00'' | Some r \<Rightarrow> row_time_window_local r),
      required_disclosures =
        Array_from_Set
          ((case jpTochika rows of None \<Rightarrow> [] | Some r \<Rightarrow> row_required_disclosures r) @
           (case jpUsdc rows of None \<Rightarrow> [] | Some r \<Rightarrow> row_required_disclosures r)),
      kyc_level = KycPartner,
      travel_rule_applied = True,
      sanctions_screen = Pass\<rparr>"

definition windowOK :: "PolicyRow list \<Rightarrow> 'a inputs_scheme \<Rightarrow> bool" where
  "windowOK rows st = withinWindow (now st) (time_window_local (policyApplied rows))"

definition perTxnOK :: "PolicyRow list \<Rightarrow> 'a inputs_scheme \<Rightarrow> bool" where
  "perTxnOK rows st \<longleftrightarrow>
     totalJPY st \<le> max_per_txn_local (policyApplied rows) \<or>
     max_per_txn_local (policyApplied rows) = 0"

definition policyOK :: "PolicyRow list \<Rightarrow> 'a inputs_scheme \<Rightarrow> bool" where
  "policyOK rows st \<longleftrightarrow> on_off (policyApplied rows) = ON \<and> windowOK rows st \<and> perTxnOK rows st"

text \<open>
  The quote validity reads the wall clock (\<^verbatim>\<open>new Date().getTime()\<close>, here \<open>clock\<close>, in
  milliseconds), not the demo time \<^verbatim>\<open>now\<close>. A \<^verbatim>\<open>null\<close> start or rate is falsy.
\<close>

definition holdValid :: "int \<Rightarrow> state \<Rightarrow> bool" where
  "holdValid clock st \<longleftrightarrow>
     \<not> quoteLocked st \<or>
     (case quoteStart st of
        None \<Rightarrow> False
      | Some start \<Rightarrow> (of_int (clock - start) :: rat) / 1000 \<le> of_int (holdSec st))"

text \<open>
  With a locked rate of zero the quotient is an infinity or NaN, and \<^verbatim>\<open><=\<close> against the
  finite bound is false in both cases.
\<close>

definition slippageValid :: "state \<Rightarrow> bool" where
  "slippageValid st \<longleftrightarrow>
     \<not> quoteLocked st \<or>
     (case quoteRate st of
        None \<Rightarrow> False
      | Some q \<Rightarrow> q \<noteq> 0 \<and> \<bar>(rateUSDCJPY st - q) / q\<bar> * 10000 \<le> of_int (slippageBps st))"

definition quoteOK :: "int \<Rightarrow> state \<Rightarrow> bool" where
  "quoteOK clock st \<longleftrightarrow> holdValid clock st \<and> slippageValid st"


text \<open>The handlers of the buttons "Lock quote" and "Reset quote".\<close>

definition lockQuote :: "int \<Rightarrow> state \<Rightarrow> state" where
  "lockQuote clock st =
     st\<lparr>quoteLocked := True, quoteRate := Some (rateUSDCJPY st), quoteStart := Some clock\<rparr>"

definition resetQuote :: "state \<Rightarrow> state" where
  "resetQuote st = st\<lparr>quoteLocked := False, quoteRate := None, quoteStart := None\<rparr>"

definition rid :: "'a inputs_scheme \<Rightarrow> string" where
  "rid st = genRID (jurisdiction st) (now st) 45"

definition receiptJSON :: "PolicyRow list \<Rightarrow> 'a inputs_scheme \<Rightarrow> Receipt" where
  "receiptJSON rows st =
     \<lparr>reconciliation_id = rid st,
      order_id = ''ord_7f3a2c'',
      receipt_jurisdiction = jurisdiction st,
      policy_version = ''JP-1.4'',
      policy_snapshot = policyApplied rows,
      tochika_amount_jpy = tochikaJPY st,
      tochika_route = (if policyOK rows st then ''policy-approved'' else ''blocked''),
      usdc_value_jpy = Math_round (usdcAmt st * rateUSDCJPY st),
      card_amount_jpy = cardJPY st,
      payout = \<lparr>gross_jpy = totalJPY st, fees_jpy = 35,
                net_jpy = Math_round (totalJPY st - 35), bank_last4 = ''1234''\<rparr>\<rparr>"

definition reconCSV :: "PolicyRow list \<Rightarrow> 'a inputs_scheme \<Rightarrow> ReconRow" where
  "reconCSV rows st =
     \<lparr>RID = csvEscape (rid st),
      Order_ID = csvEscape (order_id (receiptJSON rows st)),
      Merchant_ID = csvEscape ''MERCH-1029'',
      Payout_Currency = csvEscape ''JPY'',
      Amount_Gross = csvEscape (String_int (Math_round (totalJPY st))),
      Amount_Net = csvEscape (String_int (Math_round (totalJPY st - 35))),
      Asset_In_Type = csvEscape (if usdcAmt st > 0 then ''USDC'' else ''Card'')\<rparr>"

definition gateMessage :: "PolicyRow list \<Rightarrow> int \<Rightarrow> state \<Rightarrow> message" where
  "gateMessage rows clock st =
     (if \<not> policyOK rows st
      then (if on_off (policyApplied rows) = OFF then Blocked_Policy_OFF
            else (if \<not> windowOK rows st then Blocked_Outside_time_window
                  else if \<not> perTxnOK rows st then Blocked_Exceeds_per_txn_cap
                  else Blocked_Policy_rule))
      else (if \<not> quoteOK clock st
            then (if \<not> holdValid clock st then Blocked_Quote_hold_expired
                  else Blocked_Slippage_bound_breached)
            else Approved_rules_satisfied))"


subsection \<open>The earlier component (src/unnamed/part_000)\<close>

definition policyApplied_v0 :: "PolicyRow list \<Rightarrow> PolicySnapshot" where
  "policyApplied_v0 rows =
     \<lparr>on_off =
        (if (case jpTochika rows of None \<Rightarrow> False | Some r \<Rightarrow> allow r = ON) \<or>
            (case jpUsdc rows of None \<Rightarrow> False | Some r \<Rightarrow> allow r = ON)
         then ON else OFF),
      max_per_txn_local =
        max (case jpTochika rows of None \<Rightarrow> 0 | Some r \<Rightarrow> max_txn_local r)
            (case jpUsdc rows of None \<Rightarrow> 0 | Some r \<Rightarrow> max_txn_local r),
      daily_cap_local =
        max (case jpTochika rows of None \<Rightarrow> 0 | Some r \<Rightarrow> row_daily_cap_local r)
            (case jpUsdc rows of None \<Rightarrow> 0 | Some r \<Rightarrow> row_daily_cap_local r),
      time_window_local =
        (case jpTochika rows of None \<Rightarrow> ''09:00-20:00'' | Some r \<Rightarrow> row_time_window_local r),
      required_disclosures =
        Array_from_Set
          ((case jpTochika rows of None \<Rightarrow> [] | Some r \<Rightarrow> row_required_disclosures r) @
           (case jpUsdc rows of None \<Rightarrow> [] | Some r \<Rightarrow> row_required_disclosures r)),
      kyc_level = KycPartner,
      travel_rule_applied = True,
      sanctions_screen = Pass\<rparr>"

definition windowOK_v0 :: "PolicyRow list \<Rightarrow> inputs \<Rightarrow> bool" where
  "windowOK_v0 rows st = withinWindow (now st) (time_window_local (policyApplied_v0 rows))"

definition perTxnOK_v0 :: "PolicyRow list \<Rightarrow> inputs \<Rightarrow> bool" where
  "perTxnOK_v0 rows st \<longleftrightarrow>
     totalJPY st \<le> max_per_txn_local (policyApplied_v0 rows) \<or>
     max_per_txn_local (policyApplied_v0 rows) = 0"

definition allowOverall :: "PolicyRow list \<Rightarrow> inputs \<Rightarrow> bool" where
  "allowOverall rows st \<longleftrightarrow>
     on_off (policyApplied_v0 rows) = ON \<and> windowOK_v0 rows st \<and> perTxnOK_v0 rows st"

definition gateReason :: "PolicyRow list \<Rightarrow> inputs \<Rightarrow> message_v0" where
  "gateReason rows st =
     (if allowOverall rows st then V0_Approved_rules_satisfied
      else (if on_off (policyApplied_v0 rows) = OFF then V0_Blocked_Policy_OFF
            else if \<not> windowOK_v0 rows st then V0_Blocked_Outside_time_window
            else if \<not> perTxnOK_v0 rows st then V0_Blocked_Exceeds_per_txn_cap
            else V0_Blocked_Unknown))"

subsection \<open>The taxonomy of the specification\<close>

text \<open>The reason category of a displayed message; the catch-all messages have none.\<close>

fun category :: "message \<Rightarrow> GateDecision option" where
  "category Blocked_Policy_OFF = Some (Blocked PolicyDisabled)"
| "category Blocked_Outside_time_window = Some (Blocked OutsideWindow)"
| "category Blocked_Exceeds_per_txn_cap = Some (Blocked CapExceeded)"
| "category Blocked_Quote_hold_expired = Some (Blocked QuoteExpired)"
| "category Blocked_Slippage_bound_breached = Some (Blocked SlippageBreached)"
| "category Approved_rules_satisfied = Some Approved"
| "category Blocked_Policy_rule = None"

fun category_v0 :: "message_v0 \<Rightarrow> GateDecision option" where
  "category_v0 V0_Blocked_Policy_OFF = Some (Blocked PolicyDisabled)"
| "category_v0 V0_Blocked_Outside_time_window = Some (Blocked OutsideWindow)"
| "category_v0 V0_Blocked_Exceeds_per_txn_cap = Some (Blocked CapExceeded)"
| "category_v0 V0_Approved_rules_satisfied = Some Approved"
| "category_v0 V0_Blocked_Unknown = None"



subsection \<open>A concrete checkout\<close>

text \<open>
  The initial state of the component: the arguments of its \<^verbatim>\<open>useState\<close> calls, at noon of
  27 August 2025.
\<close>

definition sample :: state where
  "sample = \<lparr>jurisdiction = ''JP'', merchantName = ''Sakura Electronics'', tochikaJPY = 8000,
     usdcAmt = 20, cardJPY = 500, rateUSDCJPY = 603 / 4, holdSec = 90, slippageBps = 50,
     now = \<lparr>getFullYear = 2025, getMonth = 7, getDate = 27, getHours = 12, getMinutes = 0, getTime = 0\<rparr>,
     quoteLocked = False, quoteRate = None, quoteStart = None, autoFallback = True\<rparr>"

text \<open>The same checkout at another time of the day, and the table with every window open.\<close>

definition at_time :: "nat \<Rightarrow> nat \<Rightarrow> state \<Rightarrow> state" where
  "at_time h m st = st\<lparr>now := (now st)\<lparr>getHours := h, getMinutes := m\<rparr>\<rparr>"

definition all_day_rows :: "PolicyRow list" where
  "all_day_rows = map (\<lambda>r. r\<lparr>row_time_window_local := ''00:00-24:00''\<rparr>) POLICY_MATRIX"

section \<open>Auxiliary facts\<close>

lemma digit_values:
  "digit 0 = CHR ''0''" "digit 1 = CHR ''1''" "digit 2 = CHR ''2''" "digit 3 = CHR ''3''"
  "digit 4 = CHR ''4''" "digit 5 = CHR ''5''" "digit 6 = CHR ''6''" "digit 7 = CHR ''7''"
  "digit 8 = CHR ''8''" "digit 9 = CHR ''9''" "digit (Suc 0) = CHR ''1''"
  by code_simp+

lemma digit_cases:
  assumes "n < 10"
  shows "digit n \<in> set ''0123456789''"
proof -
  from assms have "n \<in> {0, 1, 2, 3, 4, 5, 6, 7, 8, 9}" by auto
  then show ?thesis by (auto simp: digit_values)
qed

lemma String_nat_digits: "set (String_nat n) \<subseteq> set ''0123456789''"
proof (induction n rule: String_nat.induct)
  case (1 n)
  show ?case
  proof (cases "n < 10")
    case True
    then show ?thesis using digit_cases [of n] by (subst String_nat.simps) simp
  next
    case False
    then have "set (String_nat (n div 10)) \<subseteq> set ''0123456789''" using 1 by simp
    moreover have "digit (n mod 10) \<in> set ''0123456789''" by (rule digit_cases) simp
    ultimately show ?thesis using False by (subst String_nat.simps) simp
  qed
qed

lemma String_nat_one: "n < 10 \<Longrightarrow> String_nat n = [digit n]"
  by (subst String_nat.simps) simp

lemma String_nat_two: "10 \<le> n \<Longrightarrow> n < 100 \<Longrightarrow> String_nat n = [digit (n div 10), digit (n mod 10)]"
  by (subst String_nat.simps) (simp add: String_nat_one)

lemma String_nat_three:
  "100 \<le> n \<Longrightarrow> n < 1000 \<Longrightarrow> length (String_nat n) = 3"
  by (subst String_nat.simps) (simp add: String_nat_two)

lemma String_nat_four:
  "1000 \<le> n \<Longrightarrow> n < 10000 \<Longrightarrow> length (String_nat n) = 4"
  by (subst String_nat.simps) (simp add: String_nat_three)

lemma pad2: "n < 100 \<Longrightarrow> padStart 2 (String_nat n) = [digit (n div 10), digit (n mod 10)]"
  by (cases "n < 10") (simp_all add: padStart_def String_nat_one String_nat_two digit_values)

lemma pad6_45: "padStart 6 (String_nat 45) = ''000045''"
  by code_simp

lemma split_no_sep: "sep \<notin> set s \<Longrightarrow> split sep s = [s]"
  by (induction s) auto

lemma split_once: "sep \<notin> set s \<Longrightarrow> sep \<notin> set e \<Longrightarrow> split sep (s @ sep # e) = [s, e]"
  by (induction s) (auto simp: split_no_sep)

lemma digits_not_csvClass: "set s \<subseteq> set ''0123456789'' \<Longrightarrow> \<not> list_ex csvClass s"
  by (auto simp: list_ex_iff csvClass_def)

lemma String_nat_not_csvClass: "\<not> list_ex csvClass (String_nat n)"
  by (intro digits_not_csvClass String_nat_digits)

lemma padStart_not_csvClass:
  assumes "\<not> list_ex csvClass s"
  shows "\<not> list_ex csvClass (padStart n s)"
proof -
  have "\<not> csvClass (CHR ''0'')" by (simp add: csvClass_def)
  then have "\<not> list_ex csvClass (replicate (n - length s) (CHR ''0''))"
    by (simp add: list_ex_iff)
  with assms show ?thesis by (simp add: padStart_def)
qed

lemma csvEscape_plain: "\<not> list_ex csvClass s \<Longrightarrow> csvEscape s = s"
  by (simp add: csvEscape_def)














lemma policyApplied_v0_eq: "policyApplied_v0 rows = policyApplied rows"
  by (simp add: policyApplied_v0_def policyApplied_def)

lemma digit_less_iff: "a < 10 \<Longrightarrow> b < 10 \<Longrightarrow> digit a < digit b \<longleftrightarrow> a < b"
  by (simp add: digit_def less_char_def)

lemma digit_eq_iff: "a < 10 \<Longrightarrow> b < 10 \<Longrightarrow> digit a = digit b \<longleftrightarrow> a = b"
  by (metis digit_less_iff less_irrefl nat_neq_iff)

lemma hhmm_digits:
  assumes "getHours d < 100" "getMinutes d < 100"
  shows "hhmm d = [digit (getHours d div 10), digit (getHours d mod 10), CHR '':'',
                   digit (getMinutes d div 10), digit (getMinutes d mod 10)]"
  using assms by (simp add: hhmm_def Let_def pad2)

lemma lex_digits:
  fixes a b c d e f g h :: nat
  assumes "b < 10" "f < 10" "d < 10" "h < 10" "10 * c + d < 60" "10 * g + h < 60"
  shows "(a < e \<or> a = e \<and> (b < f \<or> b = f \<and> (c < g \<or> c = g \<and> d \<le> h))) \<longleftrightarrow>
         (10 * a + b) * 60 + (10 * c + d) \<le> (10 * e + f) * 60 + (10 * g + h)"
  using assms by auto

lemma hhmm_order:
  assumes "getHours a < 100" "getMinutes a < 60" "getHours b < 100" "getMinutes b < 60"
  shows "hhmm a \<le> hhmm b \<longleftrightarrow>
         getHours a * 60 + getMinutes a \<le> getHours b * 60 + getMinutes b"
proof -
  define a1 a0 c1 c0 where "a1 = getHours a div 10" and "a0 = getHours a mod 10"
    and "c1 = getMinutes a div 10" and "c0 = getMinutes a mod 10"
  define b1 b0 d1 d0 where "b1 = getHours b div 10" and "b0 = getHours b mod 10"
    and "d1 = getMinutes b div 10" and "d0 = getMinutes b mod 10"
  have ha: "getHours a = 10 * a1 + a0" and ma: "getMinutes a = 10 * c1 + c0"
    and hb: "getHours b = 10 * b1 + b0" and mb: "getMinutes b = 10 * d1 + d0"
    by (simp_all add: a1_def a0_def c1_def c0_def b1_def b0_def d1_def d0_def)
  have small: "a1 < 10" "a0 < 10" "c1 < 10" "c0 < 10" "b1 < 10" "b0 < 10" "d1 < 10" "d0 < 10"
    using assms by (simp_all add: a1_def a0_def c1_def c0_def b1_def b0_def d1_def d0_def)
  have "hhmm a = [digit a1, digit a0, CHR '':'', digit c1, digit c0]"
    using assms by (simp add: hhmm_digits a1_def a0_def c1_def c0_def)
  moreover have "hhmm b = [digit b1, digit b0, CHR '':'', digit d1, digit d0]"
    using assms by (simp add: hhmm_digits b1_def b0_def d1_def d0_def)
  ultimately have "hhmm a \<le> hhmm b \<longleftrightarrow>
    (a1 < b1 \<or> a1 = b1 \<and> (a0 < b0 \<or> a0 = b0 \<and> (c1 < d1 \<or> c1 = d1 \<and> c0 \<le> d0)))"
    using small by (simp add: digit_less_iff digit_eq_iff le_less) blast
  also have "\<dots> \<longleftrightarrow> (10 * a1 + a0) * 60 + (10 * c1 + c0) \<le> (10 * b1 + b0) * 60 + (10 * d1 + d0)"
    using small assms(2,4) unfolding ma mb by (intro lex_digits)
  finally show ?thesis unfolding ha ma hb mb .
qed

lemma withinWindow_bounds:
  assumes "CHR ''-'' \<notin> set start" "CHR ''-'' \<notin> set end"
  shows "withinWindow d (start @ ''-'' @ end) \<longleftrightarrow> start \<le> hhmm d \<and> hhmm d \<le> end"
  using split_once [OF assms] by (simp add: withinWindow_def Let_def)

lemma withinWindow_all_day:
  assumes "valid_date d"
  shows "withinWindow d ''00:00-24:00''"
proof -
  have h: "getHours d < 24" "getMinutes d < 60" using assms by (simp_all add: valid_date_def)
  have s: "split (CHR ''-'') ''00:00-24:00'' = [''00:00'', ''24:00'']" by simp
  have lo: "''00:00'' = hhmm (d\<lparr>getHours := 0, getMinutes := 0\<rparr>)"
    and hi: "''24:00'' = hhmm (d\<lparr>getHours := 24, getMinutes := 0\<rparr>)"
    by (simp_all add: hhmm_digits digit_values)
  have "''00:00'' \<le> hhmm d" unfolding lo using h by (subst hhmm_order) simp_all
  moreover have "hhmm d \<le> ''24:00''" unfolding hi using h by (subst hhmm_order) simp_all
  ultimately show ?thesis unfolding withinWindow_def s by (simp add: Let_def)
qed

lemma padStart_within:
  assumes "set s \<subseteq> D" and "CHR ''0'' \<in> D"
  shows "set (padStart n s) \<subseteq> D"
  using assms by (auto simp: padStart_def)

lemma padStart_digits:
  "set s \<subseteq> set ''0123456789'' \<Longrightarrow> set (padStart n s) \<subseteq> set ''0123456789''"
  by (erule padStart_within) simp

lemma pad2_length: "n < 100 \<Longrightarrow> length (padStart 2 (String_nat n)) = 2"
  by (simp add: pad2)

lemma rid_unfold:
  "rid st = ''RID-'' @ jurisdiction st @ ''-'' @ String_nat (getFullYear (now st))
      @ padStart 2 (String_nat (getMonth (now st) + 1))
      @ padStart 2 (String_nat (getDate (now st))) @ ''-000045''"
  by (simp add: rid_def genRID_def Let_def pad6_45)

lemma rid_not_csvClass:
  assumes "jurisdiction st = ''JP'' \<or> jurisdiction st = ''HK''"
  shows "\<not> list_ex csvClass (rid st)"
proof -
  have j: "\<not> list_ex csvClass (jurisdiction st)"
    using assms by (elim disjE) (simp_all add: csvClass_def)
  have c: "\<not> list_ex csvClass ''RID-''" "\<not> list_ex csvClass ''-''"
    "\<not> list_ex csvClass ''-000045''"
    by (simp_all add: csvClass_def)
  show ?thesis
    unfolding rid_unfold list_ex_append
    using j c String_nat_not_csvClass padStart_not_csvClass [OF String_nat_not_csvClass]
    by blast
qed

lemma csvEscape_rid:
  assumes "jurisdiction st = ''JP'' \<or> jurisdiction st = ''HK''"
  shows "csvEscape (rid st) = rid st"
  by (intro csvEscape_plain rid_not_csvClass assms)

section \<open>The claims\<close>

subsection \<open>C1: the resolver without a matching row\<close>




subsection \<open>C2: the precedence of the blocked reasons\<close>

text \<open>
  Claim C2: the gate message falls in exactly one category, decided by the first failing
  check in the order PolicyDisabled, OutsideWindow, CapExceeded, QuoteExpired,
  SlippageBreached; the two quote reasons appear only when the three policy checks pass,
  and when nothing fails the decision is Approved. The catch-all message of the source
  ("Blocked: Policy rule.") is never shown.
\<close>

theorem gateMessage_precedence:
  "category (gateMessage rows clock st) =
     Some (if on_off (policyApplied rows) \<noteq> ON then Blocked PolicyDisabled
           else if \<not> windowOK rows st then Blocked OutsideWindow
           else if \<not> perTxnOK rows st then Blocked CapExceeded
           else if \<not> holdValid clock st then Blocked QuoteExpired
           else if \<not> slippageValid st then Blocked SlippageBreached
           else Approved)"
proof (cases "on_off (policyApplied rows)")
  case ON
  then show ?thesis by (simp add: gateMessage_def policyOK_def quoteOK_def)
next
  case OFF
  then show ?thesis by (simp add: gateMessage_def policyOK_def)
qed

text \<open>
  Claim C2 at six checkouts, one for every category.
\<close>

theorem gateMessage_precedence_witness:
  "category (gateMessage (filter (\<lambda>r. country r = ''HK'') POLICY_MATRIX) 0 sample)
     = Some (Blocked PolicyDisabled) \<and>
   category (gateMessage POLICY_MATRIX 0 (sample\<lparr>now := (now sample)\<lparr>getHours := 21\<rparr>\<rparr>))
     = Some (Blocked OutsideWindow) \<and>
   category (gateMessage POLICY_MATRIX 0 (sample\<lparr>tochikaJPY := 16485\<rparr>))
     = Some (Blocked CapExceeded) \<and>
   category (gateMessage POLICY_MATRIX 91000 (lockQuote 0 sample))
     = Some (Blocked QuoteExpired) \<and>
   category (gateMessage POLICY_MATRIX 1000 ((lockQuote 0 (sample\<lparr>rateUSDCJPY := 150\<rparr>))\<lparr>rateUSDCJPY := 151\<rparr>))
     = Some (Blocked SlippageBreached) \<and>
   category (gateMessage POLICY_MATRIX 0 sample) = Some Approved"
proof -
  have 1: "on_off (policyApplied (filter (\<lambda>r. country r = ''HK'') POLICY_MATRIX)) \<noteq> ON"
    by code_simp
  have on: "on_off (policyApplied POLICY_MATRIX) = ON" by code_simp
  have 2: "\<not> windowOK POLICY_MATRIX (sample\<lparr>now := (now sample)\<lparr>getHours := 21\<rparr>\<rparr>)"
    by code_simp
  have 3: "windowOK POLICY_MATRIX (sample\<lparr>tochikaJPY := 16485\<rparr>)"
    "\<not> perTxnOK POLICY_MATRIX (sample\<lparr>tochikaJPY := 16485\<rparr>)"
    by code_simp+
  have 4: "windowOK POLICY_MATRIX (lockQuote 0 sample)" "perTxnOK POLICY_MATRIX (lockQuote 0 sample)"
    "\<not> holdValid 91000 (lockQuote 0 sample)"
    by code_simp+
  have 5: "windowOK POLICY_MATRIX ((lockQuote 0 (sample\<lparr>rateUSDCJPY := 150\<rparr>))\<lparr>rateUSDCJPY := 151\<rparr>)"
    "perTxnOK POLICY_MATRIX ((lockQuote 0 (sample\<lparr>rateUSDCJPY := 150\<rparr>))\<lparr>rateUSDCJPY := 151\<rparr>)"
    "holdValid 1000 ((lockQuote 0 (sample\<lparr>rateUSDCJPY := 150\<rparr>))\<lparr>rateUSDCJPY := 151\<rparr>)"
    "\<not> slippageValid ((lockQuote 0 (sample\<lparr>rateUSDCJPY := 150\<rparr>))\<lparr>rateUSDCJPY := 151\<rparr>)"
    by code_simp+
  have 6: "windowOK POLICY_MATRIX sample" "perTxnOK POLICY_MATRIX sample"
    "holdValid 0 sample" "slippageValid sample"
    by code_simp+
  from gateMessage_precedence [of "filter (\<lambda>r. country r = ''HK'') POLICY_MATRIX" 0 sample]
    gateMessage_precedence [of POLICY_MATRIX 0 "sample\<lparr>now := (now sample)\<lparr>getHours := 21\<rparr>\<rparr>"]
    gateMessage_precedence [of POLICY_MATRIX 0 "sample\<lparr>tochikaJPY := 16485\<rparr>"]
    gateMessage_precedence [of POLICY_MATRIX 91000 "lockQuote 0 sample"]
    gateMessage_precedence [of POLICY_MATRIX 1000 "(lockQuote 0 (sample\<lparr>rateUSDCJPY := 150\<rparr>))\<lparr>rateUSDCJPY := 151\<rparr>"]
    gateMessage_precedence [of POLICY_MATRIX 0 sample]
    1 on 2 3 4 5 6
  show ?thesis by simp
qed

subsection \<open>C3: the fallback transform\<close>




subsection \<open>C4: the validity of the quote\<close>



subsection \<open>C5: the time window\<close>

text \<open>
  Claim C5: for a window start-end the check passes exactly when
  start <= hhmm(now) <= end in the lexicographic order of strings, both bounds included;
  with the policy ON every time outside the window gives "Blocked: Outside time window.";
  the check reads the hours and minutes of now only, and on valid dates the order of the
  strings is the order of the times of day; the window 00:00-24:00 passes at every time
  of day.
\<close>

theorem windowOK_inclusive_time_of_day:
  assumes "time_window_local (policyApplied rows) = start @ ''-'' @ end"
    and "CHR ''-'' \<notin> set start" and "CHR ''-'' \<notin> set end"
  shows "(windowOK rows st \<longleftrightarrow> start \<le> hhmm (now st) \<and> hhmm (now st) \<le> end) \<and>
    (on_off (policyApplied rows) = ON \<and> \<not> (start \<le> hhmm (now st) \<and> hhmm (now st) \<le> end) \<longrightarrow>
       gateMessage rows clock st = Blocked_Outside_time_window) \<and>
    (getHours (now (st' :: state)) = getHours (now st) \<and> getMinutes (now st') = getMinutes (now st) \<longrightarrow>
       windowOK rows st' = windowOK rows st) \<and>
    (valid_date (now st) \<and> valid_date (now st') \<longrightarrow>
       (hhmm (now st) \<le> hhmm (now st') \<longleftrightarrow>
          getHours (now st) * 60 + getMinutes (now st)
            \<le> getHours (now st') * 60 + getMinutes (now st'))) \<and>
    (start = ''00:00'' \<and> end = ''24:00'' \<and> valid_date (now st) \<longrightarrow> windowOK rows st)"
proof -
  have w: "windowOK rows s \<longleftrightarrow> start \<le> hhmm (now s) \<and> hhmm (now s) \<le> end" for s :: state
    unfolding windowOK_def assms(1) by (rule withinWindow_bounds [OF assms(2,3)])
  have blocked: "gateMessage rows clock st = Blocked_Outside_time_window"
    if "on_off (policyApplied rows) = ON" "\<not> windowOK rows st"
    using that by (simp add: gateMessage_def policyOK_def)
  have tod: "windowOK rows st' = windowOK rows st"
    if "getHours (now st') = getHours (now st)" "getMinutes (now st') = getMinutes (now st)"
    using that by (simp add: w hhmm_def)
  have all_day: "windowOK rows st" if "start = ''00:00''" "end = ''24:00''" "valid_date (now st)"
    using withinWindow_all_day [OF that(3)] that(1,2) assms(1) by (simp add: windowOK_def)
  have order: "hhmm (now st) \<le> hhmm (now st') \<longleftrightarrow>
          getHours (now st) * 60 + getMinutes (now st)
            \<le> getHours (now st') * 60 + getMinutes (now st')"
    if "valid_date (now st)" "valid_date (now st')"
    using that by (intro hhmm_order) (simp_all add: valid_date_def)
  show ?thesis using w [of st] blocked tod order all_day by blast
qed

text \<open>
  Claim C5 at the policy matrix, whose window is 09:00-20:00: 09:00 and 20:00 pass, 20:01
  and 08:59 are blocked for the window; with every window set to 00:00-24:00, 23:59 passes.
\<close>

theorem windowOK_inclusive_time_of_day_witness:
  "time_window_local (policyApplied POLICY_MATRIX) = ''09:00'' @ ''-'' @ ''20:00'' \<and>
   windowOK POLICY_MATRIX (at_time 9 0 sample) \<and>
   windowOK POLICY_MATRIX (at_time 20 0 sample) \<and>
   gateMessage POLICY_MATRIX 0 (at_time 20 1 sample) = Blocked_Outside_time_window \<and>
   gateMessage POLICY_MATRIX 0 (at_time 8 59 sample) = Blocked_Outside_time_window \<and>
   time_window_local (policyApplied all_day_rows) = ''00:00'' @ ''-'' @ ''24:00'' \<and>
   valid_date (now (at_time 23 59 sample)) \<and>
   windowOK all_day_rows (at_time 23 59 sample)"
proof -
  have w: "time_window_local (policyApplied POLICY_MATRIX) = ''09:00'' @ ''-'' @ ''20:00''"
    "CHR ''-'' \<notin> set ''09:00''" "CHR ''-'' \<notin> set ''20:00''"
    by code_simp+
  have a: "time_window_local (policyApplied all_day_rows) = ''00:00'' @ ''-'' @ ''24:00''"
    "CHR ''-'' \<notin> set ''00:00''" "CHR ''-'' \<notin> set ''24:00''"
    by code_simp+
  have on: "on_off (policyApplied POLICY_MATRIX) = ON" by code_simp
  have inside: "''09:00'' \<le> hhmm (now (at_time 9 0 sample))"
    "hhmm (now (at_time 9 0 sample)) \<le> ''20:00''"
    "''09:00'' \<le> hhmm (now (at_time 20 0 sample))"
    "hhmm (now (at_time 20 0 sample)) \<le> ''20:00''"
    by code_simp+
  have outside: "\<not> hhmm (now (at_time 20 1 sample)) \<le> ''20:00''"
    "\<not> ''09:00'' \<le> hhmm (now (at_time 8 59 sample))"
    by code_simp+
  have v: "valid_date (now (at_time 23 59 sample))" by code_simp
  have p1: "windowOK POLICY_MATRIX (at_time 9 0 sample)"
    using windowOK_inclusive_time_of_day [OF w, of "at_time 9 0 sample" 0 sample] inside(1,2)
    by blast
  have p2: "windowOK POLICY_MATRIX (at_time 20 0 sample)"
    using windowOK_inclusive_time_of_day [OF w, of "at_time 20 0 sample" 0 sample] inside(3,4)
    by blast
  have p3: "gateMessage POLICY_MATRIX 0 (at_time 20 1 sample) = Blocked_Outside_time_window"
    using windowOK_inclusive_time_of_day [OF w, of "at_time 20 1 sample" 0 sample] on outside(1)
    by blast
  have p4: "gateMessage POLICY_MATRIX 0 (at_time 8 59 sample) = Blocked_Outside_time_window"
    using windowOK_inclusive_time_of_day [OF w, of "at_time 8 59 sample" 0 sample] on outside(2)
    by blast
  have p5: "windowOK all_day_rows (at_time 23 59 sample)"
    using windowOK_inclusive_time_of_day [OF a, of "at_time 23 59 sample" 0 sample] v
    by blast
  from w(1) a(1) v p1 p2 p3 p4 p5 show ?thesis by simp
qed

subsection \<open>C6: the per-transaction cap\<close>

text \<open>
  Claim C6: with a per-transaction cap of 0 the cap check passes for every total, and with
  a cap C > 0 it passes exactly when the total is at most C.
\<close>

theorem perTxnOK_cap:
  "(max_per_txn_local (policyApplied rows) = 0 \<longrightarrow> perTxnOK rows st) \<and>
   (0 < max_per_txn_local (policyApplied rows) \<longrightarrow>
      (perTxnOK rows st \<longleftrightarrow> totalJPY st \<le> max_per_txn_local (policyApplied rows)))"
  by (auto simp: perTxnOK_def)

text \<open>
  Claim C6 at the empty table (cap 0) and at the policy matrix (cap 15000), with totals
  of 11515 and 20000.
\<close>

theorem perTxnOK_cap_witness:
  "max_per_txn_local (policyApplied []) = 0 \<and>
   perTxnOK [] (sample\<lparr>tochikaJPY := 1000000\<rparr>) \<and>
   0 < max_per_txn_local (policyApplied POLICY_MATRIX) \<and>
   totalJPY sample \<le> max_per_txn_local (policyApplied POLICY_MATRIX) \<and>
   perTxnOK POLICY_MATRIX sample \<and>
   \<not> totalJPY (sample\<lparr>tochikaJPY := 16485\<rparr>) \<le> max_per_txn_local (policyApplied POLICY_MATRIX) \<and>
   \<not> perTxnOK POLICY_MATRIX (sample\<lparr>tochikaJPY := 16485\<rparr>)"
proof -
  have zero: "max_per_txn_local (policyApplied []) = 0" by code_simp
  have pos: "0 < max_per_txn_local (policyApplied POLICY_MATRIX)" by code_simp
  have below: "totalJPY sample \<le> max_per_txn_local (policyApplied POLICY_MATRIX)" by code_simp
  have above: "\<not> totalJPY (sample\<lparr>tochikaJPY := 16485\<rparr>) \<le> max_per_txn_local (policyApplied POLICY_MATRIX)"
    by code_simp
  from perTxnOK_cap [of "[]" "sample\<lparr>tochikaJPY := 1000000\<rparr>"]
    perTxnOK_cap [of POLICY_MATRIX sample]
    perTxnOK_cap [of POLICY_MATRIX "sample\<lparr>tochikaJPY := 16485\<rparr>"]
    zero pos below above
  show ?thesis by blast
qed

subsection \<open>C7: the reconciliation identifier\<close>

text \<open>
  Claim C7 as stated fails: the sequence number is the constant 45, not assigned per
  checkout. Two different checkouts of the same day in the same jurisdiction (other
  amounts, another hour) get the same RID.
\<close>

theorem rid_shared_by_two_checkouts:
  "rid sample = ''RID-JP-20250827-000045'' \<and>
   rid (at_time 18 30 (sample\<lparr>tochikaJPY := 100, cardJPY := 0\<rparr>)) = ''RID-JP-20250827-000045'' \<and>
   tochikaJPY sample \<noteq> tochikaJPY (at_time 18 30 (sample\<lparr>tochikaJPY := 100, cardJPY := 0\<rparr>)) \<and>
   getHours (now sample) \<noteq> getHours (now (at_time 18 30 (sample\<lparr>tochikaJPY := 100, cardJPY := 0\<rparr>)))"
  by code_simp

text \<open>
  Claim C7, amended: for a valid date with a four-digit year the RID is
  RID-<jurisdiction>-<YYYYMMDD>-000045, the date as four, two and two decimal digits and
  the sequence part always 000045; the receipt carries this RID, and for the jurisdictions
  JP and HK the reconciliation row carries the identical string.
\<close>

theorem rid_format:
  assumes "valid_date (now st)" and "1000 \<le> getFullYear (now st)" and "getFullYear (now st) \<le> 9999"
  shows "rid st = ''RID-'' @ jurisdiction st @ ''-'' @ String_nat (getFullYear (now st))
            @ padStart 2 (String_nat (getMonth (now st) + 1))
            @ padStart 2 (String_nat (getDate (now st))) @ ''-'' @ ''000045'' \<and>
         length (String_nat (getFullYear (now st))) = 4 \<and>
         length (padStart 2 (String_nat (getMonth (now st) + 1))) = 2 \<and>
         length (padStart 2 (String_nat (getDate (now st)))) = 2 \<and>
         set (String_nat (getFullYear (now st)) @ padStart 2 (String_nat (getMonth (now st) + 1))
              @ padStart 2 (String_nat (getDate (now st)))) \<subseteq> set ''0123456789'' \<and>
         reconciliation_id (receiptJSON rows st) = rid st \<and>
         (jurisdiction st = ''JP'' \<or> jurisdiction st = ''HK'' \<longrightarrow> RID (reconCSV rows st) = rid st)"
proof -
  have md: "getMonth (now st) + 1 < 100" "getDate (now st) < 100"
    using assms(1) by (simp_all add: valid_date_def)
  have len: "length (String_nat (getFullYear (now st))) = 4"
    using assms(2,3) by (intro String_nat_four) simp_all
  have digits: "set (String_nat (getFullYear (now st)) @ padStart 2 (String_nat (getMonth (now st) + 1))
              @ padStart 2 (String_nat (getDate (now st)))) \<subseteq> set ''0123456789''"
    using String_nat_digits [of "getFullYear (now st)"]
      padStart_digits [OF String_nat_digits, of 2 "getMonth (now st) + 1"]
      padStart_digits [OF String_nat_digits, of 2 "getDate (now st)"]
    by simp
  have csv: "RID (reconCSV rows st) = rid st"
    if "jurisdiction st = ''JP'' \<or> jurisdiction st = ''HK''"
    using csvEscape_rid [OF that] by (simp add: reconCSV_def)
  have rec: "reconciliation_id (receiptJSON rows st) = rid st" by (simp add: receiptJSON_def)
  show ?thesis
    using len pad2_length [OF md(1)] pad2_length [OF md(2)] digits csv rec
    by (simp add: rid_unfold)
qed

text \<open>
  The amended claim C7 at the initial checkout.
\<close>

theorem rid_format_witness:
  "valid_date (now sample) \<and> 1000 \<le> getFullYear (now sample) \<and> getFullYear (now sample) \<le> 9999 \<and>
   rid sample = ''RID-JP-20250827-000045'' \<and>
   reconciliation_id (receiptJSON POLICY_MATRIX sample) = ''RID-JP-20250827-000045'' \<and>
   RID (reconCSV POLICY_MATRIX sample) = ''RID-JP-20250827-000045''"
proof -
  have v: "valid_date (now sample)" "1000 \<le> getFullYear (now sample)"
    "getFullYear (now sample) \<le> 9999"
    by code_simp+
  have j: "jurisdiction sample = ''JP'' \<or> jurisdiction sample = ''HK''" by code_simp
  have r: "rid sample = ''RID-JP-20250827-000045''" by code_simp
  from rid_format [OF v, of POLICY_MATRIX] j r v show ?thesis by simp
qed

subsection \<open>C8: the receipt and the reconciliation row\<close>




subsection \<open>C9: the requested jurisdiction\<close>



subsection \<open>C10: the earlier component\<close>

text \<open>
  Claim C10: with no quote locked, the component and its earlier version compute the same
  policy snapshot, the same approve-or-block outcome and the same reason category (which
  is never one of the catch-all messages).
\<close>

theorem gate_agrees_with_earlier_component:
  assumes "\<not> quoteLocked st"
  shows "policyApplied rows = policyApplied_v0 rows \<and>
    (policyOK rows st \<and> quoteOK clock st \<longleftrightarrow> allowOverall rows (inputs.truncate st)) \<and>
    category (gateMessage rows clock st) = category_v0 (gateReason rows (inputs.truncate st)) \<and>
    category (gateMessage rows clock st) \<noteq> None"
proof -
  have q: "quoteOK clock st" using assms by (simp add: quoteOK_def holdValid_def slippageValid_def)
  have t: "totalJPY (inputs.truncate st) = totalJPY st" "now (inputs.truncate st) = now st"
    by (simp_all add: totalJPY_def inputs.truncate_def)
  have w: "windowOK_v0 rows (inputs.truncate st) = windowOK rows st"
    by (simp add: windowOK_v0_def windowOK_def policyApplied_v0_eq t)
  have p: "perTxnOK_v0 rows (inputs.truncate st) = perTxnOK rows st"
    by (simp add: perTxnOK_v0_def perTxnOK_def policyApplied_v0_eq t)
  have a: "allowOverall rows (inputs.truncate st) = policyOK rows st"
    by (simp add: allowOverall_def policyOK_def policyApplied_v0_eq w p)
  have m: "category (gateMessage rows clock st) = category_v0 (gateReason rows (inputs.truncate st))"
    using q by (cases "on_off (policyApplied rows)")
      (auto simp: gateMessage_def gateReason_def a w p policyApplied_v0_eq policyOK_def)
  have c: "category (gateMessage rows clock st) \<noteq> None"
    using q by (cases "on_off (policyApplied rows)") (auto simp: gateMessage_def policyOK_def)
  show ?thesis using q a m c by (simp add: policyApplied_v0_eq)
qed

text \<open>
  Claim C10 at the initial checkout (approved by both) and at a total of 20000 (blocked by
  both for the cap).
\<close>

theorem gate_agrees_with_earlier_component_witness:
  "\<not> quoteLocked sample \<and>
   policyApplied POLICY_MATRIX = policyApplied_v0 POLICY_MATRIX \<and>
   allowOverall POLICY_MATRIX (inputs.truncate sample) \<and>
   category_v0 (gateReason POLICY_MATRIX (inputs.truncate sample)) = Some Approved \<and>
   \<not> allowOverall POLICY_MATRIX (inputs.truncate (sample\<lparr>tochikaJPY := 16485\<rparr>)) \<and>
   category_v0 (gateReason POLICY_MATRIX (inputs.truncate (sample\<lparr>tochikaJPY := 16485\<rparr>)))
     = Some (Blocked CapExceeded)"
proof -
  have u: "\<not> quoteLocked sample" "\<not> quoteLocked (sample\<lparr>tochikaJPY := 16485\<rparr>)" by code_simp+
  have g: "category (gateMessage POLICY_MATRIX 0 sample) = Some Approved"
    "category (gateMessage POLICY_MATRIX 0 (sample\<lparr>tochikaJPY := 16485\<rparr>))
       = Some (Blocked CapExceeded)"
    "policyOK POLICY_MATRIX sample" "quoteOK 0 sample"
    "\<not> policyOK POLICY_MATRIX (sample\<lparr>tochikaJPY := 16485\<rparr>)"
    by code_simp+
  from gate_agrees_with_earlier_component [OF u(1), of POLICY_MATRIX 0] gate_agrees_with_earlier_component [OF u(2), of POLICY_MATRIX 0] u g
  show ?thesis by metis
qed

end
